theory Spec2Isabelle
  imports Main "HOL-Library.Word"
begin

section \<open>The ingestion handler of the profiling server (pkg/server/ingest.go)\<close>

text \<open>
  The theory embeds the three parser wrappers, \<open>ingestParamsFromRequest\<close> and
  \<open>ingestHandler\<close>. Go byte slices and strings are \<open>string\<close> (a list of bytes), Go's
  \<open>int\<close> is the 64-bit one and is read as a mathematical integer within its range,
  \<open>uint32\<close> and \<open>uint64\<close> are words. Everything the handler does to its collaborators
  (the buffer pool, the logger, the storage ingester, the response writer, the counters)
  is recorded, in program order, as an event of the world the handler runs in.
\<close>

subsection \<open>Errors\<close>

text \<open>
  A Go \<open>error\<close> value of a collaborator is \<open>ErrorString\<close> with its message;
  \<open>WrapError p e\<close> is \<open>fmt.Errorf(p + "%w", e)\<close>: its message is \<open>p\<close> followed by the
  message of \<open>e\<close>, and it unwraps to \<open>e\<close>. The errors of \<open>strconv.Atoi\<close> are the two
  \<open>*strconv.NumError\<close> values \<open>ErrSyntax s\<close> and \<open>ErrRange s\<close> on the input \<open>s\<close>; the handler
  only logs them, and their message is not modelled.
\<close>

datatype NumError = ErrSyntax string | ErrRange string

datatype error = ErrorString string | WrapError string error

fun Error :: "error \<Rightarrow> string" where
  "Error (ErrorString s) = s"
| "Error (WrapError p e) = p @ Error e"

fun Unwrap :: "error \<Rightarrow> error option" where
  "Unwrap (WrapError p e) = Some e"
| "Unwrap _ = None"

subsection \<open>strconv.Atoi\<close>

definition is_digit :: "char \<Rightarrow> bool" where
  "is_digit c \<longleftrightarrow> (48::nat) \<le> of_char c \<and> of_char c \<le> (57::nat)"

definition digit_val :: "char \<Rightarrow> nat" where
  "digit_val c = of_char c - 48"

definition maxUint64 :: nat where
  "maxUint64 = 2 ^ 64 - 1"

text \<open>
  The digit loop of \<open>strconv.ParseUint\<close> in base 10 at 64 bits: a byte that is no digit
  is a syntax error, a value beyond \<open>maxUint64\<close> is a range error, whichever comes
  first from the left. \<open>s0\<close> is the whole input, kept for the error value.
\<close>

fun ParseUint_digits :: "string \<Rightarrow> string \<Rightarrow> nat \<Rightarrow> NumError + nat" where
  "ParseUint_digits s0 [] n = Inr n"
| "ParseUint_digits s0 (c # cs) n =
     (if \<not> is_digit c then Inl (ErrSyntax s0)
      else (let n1 = n * 10 + digit_val c
            in if n1 > maxUint64 then Inl (ErrRange s0)
               else ParseUint_digits s0 cs n1))"

text \<open>
  \<open>strconv.Atoi\<close>: an optional sign, then at least one decimal digit, and a value that
  fits Go's 64-bit \<open>int\<close>; anything else is an error.
\<close>

definition Atoi :: "string \<Rightarrow> NumError + int" where
  "Atoi s0 =
     (let neg = (s0 \<noteq> [] \<and> hd s0 = CHR ''-'');
          s = (if s0 \<noteq> [] \<and> (hd s0 = CHR ''+'' \<or> hd s0 = CHR ''-'') then tl s0 else s0)
      in if s = [] then Inl (ErrSyntax s0)
         else (case ParseUint_digits s0 s 0 of
                 Inl e \<Rightarrow> Inl e
               | Inr un \<Rightarrow>
                   if \<not> neg \<and> un \<ge> 2 ^ 63 then Inl (ErrRange s0)
                   else if neg \<and> un > 2 ^ 63 then Inl (ErrRange s0)
                   else Inr (if neg then - int un else int un)))"

subsection \<open>Decoder shapes and the parser wrappers\<close>

text \<open>
  A callback \<open>func([]byte, int)\<close> closes over a tree and mutates it; in the embedding it
  takes the tree and returns the updated one. A callback decoder takes the stream, the
  callback and the tree the callback works on, and returns its error together with the
  tree as the callback left it. A pointer \<open>*tree.Tree\<close> that may be nil is \<open>'t option\<close>.
\<close>

type_synonym 't callback = "string \<Rightarrow> int \<Rightarrow> 't \<Rightarrow> 't"
type_synonym 't convertFunc = "string \<Rightarrow> 't callback \<Rightarrow> 't \<Rightarrow> error option \<times> 't"
type_synonym 't convertFuncBuf = "string \<Rightarrow> string \<Rightarrow> 't callback \<Rightarrow> 't \<Rightarrow> error option \<times> 't"
type_synonym 't convertFuncReader = "string \<Rightarrow> 't option \<times> error option"
type_synonym 't parserFunc = "string \<Rightarrow> string \<Rightarrow> 't option \<times> error option"

type_synonym time = int

text \<open>\<open>storage.PutInput\<close>, with the fields the handler fills.\<close>

record ('k, 't) PutInput =
  StartTime :: time
  EndTime :: time
  Key :: 'k
  Val :: "'t option"
  SpyName :: string
  SampleRate :: "32 word"
  Units :: string
  AggregationType :: string

text \<open>\<open>bytebufferpool.ByteBuffer\<close>: the pointer is \<open>addr\<close>, the byte slice is \<open>B\<close>.\<close>

record ByteBuffer =
  addr :: nat
  B :: string

text \<open>
  The packages and the controller fields the file uses and does not define: the tree
  package, the four decoders, the time resolver and the clock, the key parser, the default
  sample rate, the hash of the application name, the buffer the pool hands out and the
  answer of the storage ingester. \<open>time_Now n\<close> is the reading of the \<open>n\<close>-th call of
  \<open>time.Now\<close>.
\<close>

record ('k, 't) env =
  tree_New :: 't
  tree_Insert :: "string \<Rightarrow> 64 word \<Rightarrow> 't \<Rightarrow> 't"
  DeserializeV1NoDict :: "'t convertFuncReader"
  ParseTrieBuf :: "'t convertFuncBuf"
  ParseIndividualLines :: "'t convertFunc"
  ParseGroups :: "'t convertFunc"
  attime_Parse :: "string \<Rightarrow> time"
  time_Now :: "nat \<Rightarrow> time"
  DefaultSampleRate :: "32 word"
  ParseKey :: "string \<Rightarrow> error + 'k"
  AppName :: "'k \<Rightarrow> string"
  hashString :: "string \<Rightarrow> 64 word"
  bufferPool_Get :: ByteBuffer
  ingester_Put :: "('k, 't) PutInput \<Rightarrow> error option"

definition treeInsert :: "('k, 't) env \<Rightarrow> 't callback" where
  "treeInsert e = (\<lambda>k v t. tree_Insert e k (word_of_int v) t)"

definition wrapConvertFunction :: "('k, 't) env \<Rightarrow> 't convertFunc \<Rightarrow> 't parserFunc" where
  "wrapConvertFunction e f =
     (\<lambda>r _. let t = tree_New e;
                (err, t') = f r (treeInsert e) t
            in (Some t', err))"

definition wrapConvertFunctionBuf :: "('k, 't) env \<Rightarrow> 't convertFuncBuf \<Rightarrow> 't parserFunc" where
  "wrapConvertFunctionBuf e f =
     (\<lambda>r tmpBuf. let t = tree_New e;
                     (err, t') = f r tmpBuf (treeInsert e) t
                 in (Some t', err))"

definition wrapConvertFunctionReader :: "'t convertFuncReader \<Rightarrow> 't parserFunc" where
  "wrapConvertFunctionReader f = (\<lambda>r _. f r)"

subsection \<open>Requests, resolved parameters and the world\<close>

text \<open>
  \<open>url.Values\<close> and \<open>http.Header\<close> are maps from a name to a list of values, a missing
  name reading as the empty list; \<open>Get\<close> is the first value, or the empty string.
\<close>

record Request =
  URL_Query :: "string \<Rightarrow> string list"
  Header :: "string \<Rightarrow> string list"
  Body :: string

definition Values_Get :: "(string \<Rightarrow> string list) \<Rightarrow> string \<Rightarrow> string" where
  "Values_Get v key = (case v key of [] \<Rightarrow> '''' | x # _ \<Rightarrow> x)"

record ('k, 't) ingestParams =
  parserFunc :: "'t parserFunc"
  storageKey :: 'k
  spyName :: string
  sampleRate :: "32 word"
  units :: string
  aggregationType :: string
  modifiers :: "string list"
  fromTime :: time
  untilTime :: time

datatype ('k, 't) event =
    LogError NumError string
  | PoolGet ByteBuffer
  | ParserCall string string
  | PoolPut ByteBuffer
  | IngesterPut "('k, 't) PutInput"
  | WriteInvalidParameterError error
  | WriteError nat error string
  | WriteInternalServerError error string
  | StatsInc string
  | AppStatsAdd "64 word"

record ('k, 't) world =
  events :: "('k, 't) event list"
  now_calls :: nat

definition emit :: "('k, 't) event \<Rightarrow> ('k, 't) world \<Rightarrow> ('k, 't) world" where
  "emit ev w = w\<lparr>events := events w @ [ev]\<rparr>"

definition now :: "('k, 't) env \<Rightarrow> ('k, 't) world \<Rightarrow> time \<times> ('k, 't) world" where
  "now e w = (time_Now e (now_calls w), w\<lparr>now_calls := Suc (now_calls w)\<rparr>)"

definition StatusUnprocessableEntity :: nat where
  "StatusUnprocessableEntity = 422"

subsection \<open>ingestParamsFromRequest\<close>

definition ingestParamsFromRequest ::
  "('k, 't) env \<Rightarrow> Request \<Rightarrow> ('k, 't) world \<Rightarrow> (error + ('k, 't) ingestParams) \<times> ('k, 't) world" where
  "ingestParamsFromRequest e r w =
     (let q = URL_Query r;
          format = Values_Get q ''format'';
          contentType = Values_Get (Header r) ''Content-Type'';
          pf = (if format = ''tree'' \<or> contentType = ''binary/octet-stream+tree''
                  then wrapConvertFunctionReader (DeserializeV1NoDict e)
                else if format = ''trie'' \<or> contentType = ''binary/octet-stream+trie''
                  then wrapConvertFunctionBuf e (ParseTrieBuf e)
                else if format = ''lines''
                  then wrapConvertFunction e (ParseIndividualLines e)
                else wrapConvertFunction e (ParseGroups e));
          (from, w1) = (let qt = Values_Get q ''from''
                        in if qt \<noteq> '''' then (attime_Parse e qt, w) else now e w);
          (until, w2) = (let qt = Values_Get q ''until''
                         in if qt \<noteq> '''' then (attime_Parse e qt, w1) else now e w1);
          (rate, w3) = (let sr = Values_Get q ''sampleRate''
                        in if sr \<noteq> ''''
                           then (case Atoi sr of
                                   Inl err \<Rightarrow>
                                     (DefaultSampleRate e,
                                      emit (LogError err (''invalid sample rate: '' @ sr)) w2)
                                 | Inr n \<Rightarrow> (word_of_int n, w2))
                           else (DefaultSampleRate e, w2));
          sn = (let s = Values_Get q ''spyName'' in if s \<noteq> '''' then s else ''unknown'');
          u = (let s = Values_Get q ''units'' in if s \<noteq> '''' then s else ''samples'');
          at = (let s = Values_Get q ''aggregationType'' in if s \<noteq> '''' then s else ''sum'')
      in case ParseKey e (Values_Get q ''name'') of
           Inl err \<Rightarrow> (Inl (WrapError ''name: '' err), w3)
         | Inr k \<Rightarrow>
             (Inr \<lparr>parserFunc = pf, storageKey = k, spyName = sn, sampleRate = rate,
                   units = u, aggregationType = at, modifiers = [],
                   fromTime = from, untilTime = until\<rparr>, w3))"

subsection \<open>ingestHandler\<close>

definition ingestHandler :: "('k, 't) env \<Rightarrow> Request \<Rightarrow> ('k, 't) world \<Rightarrow> ('k, 't) world" where
  "ingestHandler e r w =
     (case ingestParamsFromRequest e r w of
        (Inl err, w1) \<Rightarrow> emit (WriteInvalidParameterError err) w1
      | (Inr ip, w1) \<Rightarrow>
          (let tmpBuf = bufferPool_Get e;
               w2 = emit (PoolGet tmpBuf) w1;
               (t, err) = parserFunc ip (Body r) (B tmpBuf);
               w3 = emit (ParserCall (Body r) (B tmpBuf)) w2;
               w4 = emit (PoolPut tmpBuf) w3
           in case err of
                Some err1 \<Rightarrow>
                  emit (WriteError StatusUnprocessableEntity err1
                          ''error happened while parsing request body'') w4
              | None \<Rightarrow>
                  (let inp = \<lparr>StartTime = fromTime ip, EndTime = untilTime ip,
                              Key = storageKey ip, Val = t, SpyName = spyName ip,
                              SampleRate = sampleRate ip, Units = units ip,
                              AggregationType = aggregationType ip\<rparr>;
                       w5 = emit (IngesterPut inp) w4
                   in case ingester_Put e inp of
                        Some err2 \<Rightarrow>
                          emit (WriteInternalServerError err2
                                  ''error happened while ingesting data'') w5
                      | None \<Rightarrow>
                          (let w6 = emit (StatsInc ''ingest'') w5;
                               w7 = emit (StatsInc (''ingest:'' @ spyName ip)) w6;
                               k = storageKey ip
                           in emit (AppStatsAdd (hashString e (AppName e k))) w7))))"

subsection \<open>Traces of one handled request\<close>

text \<open>The events one run of the handler adds to the world, oldest first.\<close>

definition trace :: "('k, 't) env \<Rightarrow> Request \<Rightarrow> ('k, 't) world \<Rightarrow> ('k, 't) event list" where
  "trace e r w = drop (length (events w)) (events (ingestHandler e r w))"

text \<open>What resolution logs: the one error entry of a sample rate that \<open>Atoi\<close> refuses.\<close>

definition rate_log :: "Request \<Rightarrow> ('k, 't) event list" where
  "rate_log r =
     (let sr = Values_Get (URL_Query r) ''sampleRate''
      in if sr = '''' then []
         else (case Atoi sr of
                 Inl err \<Rightarrow> [LogError err (''invalid sample rate: '' @ sr)]
               | Inr n \<Rightarrow> []))"

fun is_pool :: "('k, 't) event \<Rightarrow> bool" where
  "is_pool (PoolGet b) = True"
| "is_pool (PoolPut b) = True"
| "is_pool _ = False"

fun is_response :: "('k, 't) event \<Rightarrow> bool" where
  "is_response (WriteInvalidParameterError err) = True"
| "is_response (WriteError st err msg) = True"
| "is_response (WriteInternalServerError err msg) = True"
| "is_response _ = False"

fun is_storage_write :: "('k, 't) event \<Rightarrow> bool" where
  "is_storage_write (IngesterPut inp) = True"
| "is_storage_write _ = False"

fun is_parser_call :: "('k, 't) event \<Rightarrow> bool" where
  "is_parser_call (ParserCall body buf) = True"
| "is_parser_call _ = False"

fun is_counter :: "('k, 't) event \<Rightarrow> bool" where
  "is_counter (StatsInc name) = True"
| "is_counter (AppStatsAdd h) = True"
| "is_counter _ = False"

fun is_log :: "('k, 't) event \<Rightarrow> bool" where
  "is_log (LogError err msg) = True"
| "is_log _ = False"

text \<open>
  The buffer discipline, checked along a trace. \<open>held\<close> lists the buffers that are
  borrowed and not yet returned. A buffer is returned only while it is held, the parser
  runs on the bytes of a held buffer, and a storage submission or a response is made only
  while no buffer is held. The result is the list of buffers still held at the end, or
  \<open>None\<close> where the discipline is broken.
\<close>

fun pool_run :: "('k, 't) event list \<Rightarrow> ByteBuffer list \<Rightarrow> ByteBuffer list option" where
  "pool_run [] held = Some held"
| "pool_run (PoolGet b # es) held = pool_run es (b # held)"
| "pool_run (PoolPut b # es) held =
     (if b \<in> set held then pool_run es (remove1 b held) else None)"
| "pool_run (ParserCall body buf # es) held =
     (if buf \<in> set (map B held) then pool_run es held else None)"
| "pool_run (IngesterPut inp # es) held =
     (if held = [] then pool_run es held else None)"
| "pool_run (WriteInvalidParameterError err # es) held =
     (if held = [] then pool_run es held else None)"
| "pool_run (WriteError st err msg # es) held =
     (if held = [] then pool_run es held else None)"
| "pool_run (WriteInternalServerError err msg # es) held =
     (if held = [] then pool_run es held else None)"
| "pool_run (LogError err msg # es) held = pool_run es held"
| "pool_run (StatsInc name # es) held = pool_run es held"
| "pool_run (AppStatsAdd h # es) held = pool_run es held"

text \<open>
  Modelled from the spec: \<open>writeInvalidParameterError\<close>, \<open>writeError\<close> and
  \<open>writeInternalServerError\<close> are methods of the controller defined in another file.
  The spec classifies the first as a client error and the last as a server error;
  \<open>writeError\<close> answers with the status it is given, classified by its hundreds.
\<close>

datatype classification = ClientError | ServerError

fun response_class :: "('k, 't) event \<Rightarrow> classification option" where
  "response_class (WriteInvalidParameterError err) = Some ClientError"
| "response_class (WriteError st err msg) =
     (if 400 \<le> st \<and> st < 500 then Some ClientError
      else if 500 \<le> st \<and> st < 600 then Some ServerError else None)"
| "response_class (WriteInternalServerError err msg) = Some ServerError"
| "response_class _ = None"

text \<open>The request that the handler submits to storage for resolved parameters and a tree.\<close>

definition put_input :: "('k, 't) ingestParams \<Rightarrow> 't option \<Rightarrow> ('k, 't) PutInput" where
  "put_input ip t =
     \<lparr>StartTime = fromTime ip, EndTime = untilTime ip, Key = storageKey ip, Val = t,
      SpyName = spyName ip, SampleRate = sampleRate ip, Units = units ip,
      AggregationType = aggregationType ip\<rparr>"

text \<open>
  Every step of handling succeeds: the parameters resolve, the selected parser returns no
  error on the body, and the ingester accepts the write.
\<close>

definition all_steps_succeed :: "('k, 't) env \<Rightarrow> Request \<Rightarrow> ('k, 't) world \<Rightarrow> bool" where
  "all_steps_succeed e r w =
     (case fst (ingestParamsFromRequest e r w) of
        Inl err \<Rightarrow> False
      | Inr ip \<Rightarrow>
          (case parserFunc ip (Body r) (B (bufferPool_Get e)) of
             (t, Some err) \<Rightarrow> False
           | (t, None) \<Rightarrow> ingester_Put e (put_input ip t) = None))"

subsection \<open>What a callback decoder delivers\<close>

text \<open>Running a callback over a sequence of (key, count) pairs, in order.\<close>

fun deliver :: "'t callback \<Rightarrow> (string \<times> int) list \<Rightarrow> 't \<Rightarrow> 't" where
  "deliver cb [] t = t"
| "deliver cb ((k, v) # ps) t = deliver cb ps (cb k v t)"

text \<open>
  A callback decoder delivers the pairs \<open>ps\<close> and returns \<open>err\<close> on a stream when, whatever
  the callback, its whole effect is to call it on the pairs of \<open>ps\<close> in order.
\<close>

definition delivers :: "'t convertFunc \<Rightarrow> string \<Rightarrow> (string \<times> int) list \<Rightarrow> error option \<Rightarrow> bool" where
  "delivers f r ps err \<longleftrightarrow> (\<forall>cb t. f r cb t = (err, deliver cb ps t))"

definition delivers_buf ::
  "'t convertFuncBuf \<Rightarrow> string \<Rightarrow> string \<Rightarrow> (string \<times> int) list \<Rightarrow> error option \<Rightarrow> bool" where
  "delivers_buf f r buf ps err \<longleftrightarrow> (\<forall>cb t. f r buf cb t = (err, deliver cb ps t))"

text \<open>The tree that results from inserting the pairs, in order, into a tree.\<close>

fun insert_all :: "('k, 't) env \<Rightarrow> (string \<times> int) list \<Rightarrow> 't \<Rightarrow> 't" where
  "insert_all e [] t = t"
| "insert_all e ((k, v) # ps) t = insert_all e ps (tree_Insert e k (word_of_int v) t)"

subsection \<open>Decoder selection\<close>

text \<open>The first alternative of an ordered list whose condition holds, or the default.\<close>

fun first_match :: "(bool \<times> 'a) list \<Rightarrow> 'a \<Rightarrow> 'a" where
  "first_match [] d = d"
| "first_match ((c, x) # cs) d = (if c then x else first_match cs d)"

datatype decoder = TreeDecoder | TrieDecoder | LinesDecoder | GroupsDecoder

fun parser_of :: "('k, 't) env \<Rightarrow> decoder \<Rightarrow> 't parserFunc" where
  "parser_of e TreeDecoder = wrapConvertFunctionReader (DeserializeV1NoDict e)"
| "parser_of e TrieDecoder = wrapConvertFunctionBuf e (ParseTrieBuf e)"
| "parser_of e LinesDecoder = wrapConvertFunction e (ParseIndividualLines e)"
| "parser_of e GroupsDecoder = wrapConvertFunction e (ParseGroups e)"

text \<open>The decoder that a value of \<open>format\<close>, or of the Content-Type header, names, if any.\<close>

definition format_names :: "string \<Rightarrow> decoder option" where
  "format_names format =
     (if format = ''tree'' then Some TreeDecoder
      else if format = ''trie'' then Some TrieDecoder
      else if format = ''lines'' then Some LinesDecoder
      else None)"

definition contentType_names :: "string \<Rightarrow> decoder option" where
  "contentType_names ct =
     (if ct = ''binary/octet-stream+tree'' then Some TreeDecoder
      else if ct = ''binary/octet-stream+trie'' then Some TrieDecoder
      else None)"

text \<open>The order of the cases of the selection: tree, then trie, then lines, then groups.\<close>

fun rank :: "decoder \<Rightarrow> nat" where
  "rank TreeDecoder = 0"
| "rank TrieDecoder = 1"
| "rank LinesDecoder = 2"
| "rank GroupsDecoder = 3"

subsection \<open>A concrete environment\<close>

text \<open>
  Storage keys are application names and the key parser refuses the empty name; the tree
  is a list of keys with cumulative counts; the line and group decoders deliver the body
  as one key, the trie decoder delivers one pair and then fails, the tree decoder fails;
  the ingester refuses a write whose sample rate is 0. \<open>demo_truncated\<close> is a further
  callback decoder, one that delivers two pairs and then fails.
\<close>

fun demo_Insert :: "string \<Rightarrow> 64 word \<Rightarrow> (string \<times> 64 word) list \<Rightarrow> (string \<times> 64 word) list" where
  "demo_Insert k v [] = [(k, v)]"
| "demo_Insert k v ((k', c) # t) =
     (if k = k' then (k', c + v) # t else (k', c) # demo_Insert k v t)"

definition demo_lines :: "(string \<times> 64 word) list convertFunc" where
  "demo_lines r cb t =
     (if r = [] then (Some (ErrorString ''empty body''), t) else (None, cb r 1 t))"

definition demo_groups :: "(string \<times> 64 word) list convertFunc" where
  "demo_groups r cb t = (None, cb r 2 t)"

definition demo_trie :: "(string \<times> 64 word) list convertFuncBuf" where
  "demo_trie r buf cb t = (Some (ErrorString ''unexpected end of trie''), cb ''a;b'' 3 t)"

definition demo_truncated :: "(string \<times> 64 word) list convertFunc" where
  "demo_truncated r cb t = (Some (ErrorString ''unexpected end of input''), cb ''b'' 2 (cb ''a'' 1 t))"

definition demo_tree :: "(string \<times> 64 word) list convertFuncReader" where
  "demo_tree r = (None, Some (ErrorString ''bad tree header''))"

definition demo_ParseKey :: "string \<Rightarrow> error + string" where
  "demo_ParseKey s =
     (if s = '''' then Inl (ErrorString ''application name is required'') else Inr s)"

definition demo_Put :: "(string, (string \<times> 64 word) list) PutInput \<Rightarrow> error option" where
  "demo_Put inp = (if SampleRate inp = 0 then Some (ErrorString ''storage is closed'') else None)"

definition demo_env :: "(string, (string \<times> 64 word) list) env" where
  "demo_env =
     \<lparr>tree_New = [], tree_Insert = demo_Insert, DeserializeV1NoDict = demo_tree,
      ParseTrieBuf = demo_trie, ParseIndividualLines = demo_lines, ParseGroups = demo_groups,
      attime_Parse = (\<lambda>s. 0), time_Now = (\<lambda>n. 1000 + int n), DefaultSampleRate = 100,
      ParseKey = demo_ParseKey, AppName = (\<lambda>k. k),
      hashString = (\<lambda>s. of_nat (length s)),
      bufferPool_Get = \<lparr>addr = 1, B = ''''\<rparr>, ingester_Put = demo_Put\<rparr>"

definition world0 :: "(string, (string \<times> 64 word) list) world" where
  "world0 = \<lparr>events = [], now_calls = 0\<rparr>"

text \<open>A request with the given query parameters, Content-Type header and body.\<close>

fun lookup_all :: "(string \<times> string) list \<Rightarrow> string \<Rightarrow> string list" where
  "lookup_all [] key = []"
| "lookup_all ((k, v) # kvs) key = (if k = key then v # lookup_all kvs key else lookup_all kvs key)"

definition request :: "(string \<times> string) list \<Rightarrow> (string \<times> string) list \<Rightarrow> string \<Rightarrow> Request" where
  "request q h b = \<lparr>URL_Query = lookup_all q, Header = lookup_all h, Body = b\<rparr>"

text \<open>
  The parameters that resolve in the concrete environment, from the world \<open>world0\<close>, for a
  request that names the application \<open>app.name\<close> and gives neither times, agent, units nor
  aggregation type.
\<close>

definition demo_params ::
  "(string \<times> 64 word) list parserFunc \<Rightarrow> 32 word \<Rightarrow> (string, (string \<times> 64 word) list) ingestParams" where
  "demo_params pf rate =
     \<lparr>parserFunc = pf, storageKey = ''app.name'', spyName = ''unknown'', sampleRate = rate,
      units = ''samples'', aggregationType = ''sum'', modifiers = [],
      fromTime = 1000, untilTime = 1001\<rparr>"

section \<open>Auxiliary facts\<close>

lemma events_emit: "events (emit ev w) = events w @ [ev]"
  by (simp add: emit_def)

lemma events_now: "events (snd (now e w)) = events w"
  by (simp add: now_def)

text \<open>Resolution with its pairs of value and world taken apart.\<close>

lemma resolve_unfold:
  "ingestParamsFromRequest e r w =
     (let q = URL_Query r;
          format = Values_Get q ''format'';
          contentType = Values_Get (Header r) ''Content-Type'';
          pf = (if format = ''tree'' \<or> contentType = ''binary/octet-stream+tree''
                  then wrapConvertFunctionReader (DeserializeV1NoDict e)
                else if format = ''trie'' \<or> contentType = ''binary/octet-stream+trie''
                  then wrapConvertFunctionBuf e (ParseTrieBuf e)
                else if format = ''lines''
                  then wrapConvertFunction e (ParseIndividualLines e)
                else wrapConvertFunction e (ParseGroups e));
          fw = (if Values_Get q ''from'' \<noteq> '''' then (attime_Parse e (Values_Get q ''from''), w) else now e w);
          uw = (if Values_Get q ''until'' \<noteq> '''' then (attime_Parse e (Values_Get q ''until''), snd fw) else now e (snd fw));
          sr = Values_Get q ''sampleRate'';
          rw = (if sr \<noteq> ''''
                           then (case Atoi sr of
                                   Inl err \<Rightarrow>
                                     (DefaultSampleRate e,
                                      emit (LogError err (''invalid sample rate: '' @ sr)) (snd uw))
                                 | Inr n \<Rightarrow> (word_of_int n, snd uw))
                           else (DefaultSampleRate e, snd uw));
          sn = (if Values_Get q ''spyName'' \<noteq> '''' then Values_Get q ''spyName'' else ''unknown'');
          u = (if Values_Get q ''units'' \<noteq> '''' then Values_Get q ''units'' else ''samples'');
          at = (if Values_Get q ''aggregationType'' \<noteq> '''' then Values_Get q ''aggregationType'' else ''sum'')
      in case ParseKey e (Values_Get q ''name'') of
           Inl err \<Rightarrow> (Inl (WrapError ''name: '' err), snd rw)
         | Inr k \<Rightarrow>
             (Inr \<lparr>parserFunc = pf, storageKey = k, spyName = sn, sampleRate = fst rw,
                   units = u, aggregationType = at, modifiers = [],
                   fromTime = fst fw, untilTime = fst uw\<rparr>, snd rw))"
  unfolding ingestParamsFromRequest_def Let_def split_beta ..


lemma events_snd_if_now: "events (snd (if c then (a, w) else now e w)) = events w"
  by (simp add: events_now)

lemma resolve_events:
  "events (snd (ingestParamsFromRequest e r w)) = events w @ rate_log r"
  unfolding resolve_unfold Let_def
  by (cases "ParseKey e (Values_Get (URL_Query r) ''name'')";
      cases "Atoi (Values_Get (URL_Query r) ''sampleRate'')")
     (simp_all add: rate_log_def events_snd_if_now events_emit)

lemma resolve_Inl:
  "ParseKey e (Values_Get (URL_Query r) ''name'') = Inl err \<Longrightarrow>
   fst (ingestParamsFromRequest e r w) = Inl (WrapError ''name: '' err)"
  unfolding resolve_unfold Let_def by simp

lemma resolve_Inr:
  "ParseKey e (Values_Get (URL_Query r) ''name'') = Inr k \<Longrightarrow>
   \<exists>ip. fst (ingestParamsFromRequest e r w) = Inr ip \<and> storageKey ip = k"
  unfolding resolve_unfold Let_def by simp

lemma resolve_parserFunc:
  "fst (ingestParamsFromRequest e r w) = Inr ip \<Longrightarrow>
   parserFunc ip =
     (if Values_Get (URL_Query r) ''format'' = ''tree'' \<or>
         Values_Get (Header r) ''Content-Type'' = ''binary/octet-stream+tree''
        then wrapConvertFunctionReader (DeserializeV1NoDict e)
      else if Values_Get (URL_Query r) ''format'' = ''trie'' \<or>
         Values_Get (Header r) ''Content-Type'' = ''binary/octet-stream+trie''
        then wrapConvertFunctionBuf e (ParseTrieBuf e)
      else if Values_Get (URL_Query r) ''format'' = ''lines''
        then wrapConvertFunction e (ParseIndividualLines e)
      else wrapConvertFunction e (ParseGroups e))"
  unfolding resolve_unfold Let_def
  by (cases "ParseKey e (Values_Get (URL_Query r) ''name'')") (auto split del: if_split)

lemma resolve_sampleRate:
  "fst (ingestParamsFromRequest e r w) = Inr ip \<Longrightarrow>
   sampleRate ip =
     (if Values_Get (URL_Query r) ''sampleRate'' = '''' then DefaultSampleRate e
      else (case Atoi (Values_Get (URL_Query r) ''sampleRate'') of
              Inl err \<Rightarrow> DefaultSampleRate e | Inr n \<Rightarrow> word_of_int n))"
  unfolding resolve_unfold Let_def
  by (cases "ParseKey e (Values_Get (URL_Query r) ''name'')";
      cases "Atoi (Values_Get (URL_Query r) ''sampleRate'')") auto

lemma resolve_spyName:
  "fst (ingestParamsFromRequest e r w) = Inr ip \<Longrightarrow>
   spyName ip =
     (if Values_Get (URL_Query r) ''spyName'' \<noteq> '''' then Values_Get (URL_Query r) ''spyName''
      else ''unknown'')"
  unfolding resolve_unfold Let_def
  by (cases "ParseKey e (Values_Get (URL_Query r) ''name'')") (auto split del: if_split)

lemma resolve_storageKey:
  "fst (ingestParamsFromRequest e r w) = Inr ip \<Longrightarrow>
   ParseKey e (Values_Get (URL_Query r) ''name'') = Inr (storageKey ip)"
  unfolding resolve_unfold Let_def
  by (cases "ParseKey e (Values_Get (URL_Query r) ''name'')") (auto split del: if_split)

lemma resolve_error:
  "fst (ingestParamsFromRequest e r w) = Inl err \<Longrightarrow>
   \<exists>err'. ParseKey e (Values_Get (URL_Query r) ''name'') = Inl err' \<and> err = WrapError ''name: '' err'"
  unfolding resolve_unfold Let_def
  by (cases "ParseKey e (Values_Get (URL_Query r) ''name'')") (auto split del: if_split)

lemma trace_resolve_fails:
  "fst (ingestParamsFromRequest e r w) = Inl err \<Longrightarrow>
   trace e r w = rate_log r @ [WriteInvalidParameterError err]"
  using resolve_events [of e r w]
  by (cases "ingestParamsFromRequest e r w")
     (simp add: trace_def ingestHandler_def events_emit)

lemma trace_decode_fails:
  "fst (ingestParamsFromRequest e r w) = Inr ip \<Longrightarrow>
   parserFunc ip (Body r) (B (bufferPool_Get e)) = (t, Some err) \<Longrightarrow>
   trace e r w = rate_log r @
     [PoolGet (bufferPool_Get e), ParserCall (Body r) (B (bufferPool_Get e)),
      PoolPut (bufferPool_Get e),
      WriteError StatusUnprocessableEntity err ''error happened while parsing request body'']"
  using resolve_events [of e r w]
  by (cases "ingestParamsFromRequest e r w")
     (simp add: trace_def ingestHandler_def events_emit Let_def)

lemma trace_put_fails:
  "fst (ingestParamsFromRequest e r w) = Inr ip \<Longrightarrow>
   parserFunc ip (Body r) (B (bufferPool_Get e)) = (t, None) \<Longrightarrow>
   ingester_Put e (put_input ip t) = Some err \<Longrightarrow>
   trace e r w = rate_log r @
     [PoolGet (bufferPool_Get e), ParserCall (Body r) (B (bufferPool_Get e)),
      PoolPut (bufferPool_Get e), IngesterPut (put_input ip t),
      WriteInternalServerError err ''error happened while ingesting data'']"
  using resolve_events [of e r w]
  by (cases "ingestParamsFromRequest e r w")
     (simp add: trace_def ingestHandler_def events_emit Let_def put_input_def)

lemma trace_success:
  "fst (ingestParamsFromRequest e r w) = Inr ip \<Longrightarrow>
   parserFunc ip (Body r) (B (bufferPool_Get e)) = (t, None) \<Longrightarrow>
   ingester_Put e (put_input ip t) = None \<Longrightarrow>
   trace e r w = rate_log r @
     [PoolGet (bufferPool_Get e), ParserCall (Body r) (B (bufferPool_Get e)),
      PoolPut (bufferPool_Get e), IngesterPut (put_input ip t),
      StatsInc ''ingest'', StatsInc (''ingest:'' @ spyName ip),
      AppStatsAdd (hashString e (AppName e (storageKey ip)))]"
  using resolve_events [of e r w]
  by (cases "ingestParamsFromRequest e r w")
     (simp add: trace_def ingestHandler_def events_emit Let_def put_input_def)

text \<open>Resolution logs at most one entry, and a log entry is no other kind of event.\<close>

lemma pool_run_rate_log: "pool_run (rate_log r @ es) held = pool_run es held"
  by (simp add: rate_log_def Let_def split: sum.split)

lemma filter_pool_rate_log: "filter is_pool (rate_log r) = []"
  by (simp add: rate_log_def Let_def split: sum.split)

lemma filter_response_rate_log: "filter is_response (rate_log r) = []"
  by (simp add: rate_log_def Let_def split: sum.split)

lemma filter_storage_write_rate_log: "filter is_storage_write (rate_log r) = []"
  by (simp add: rate_log_def Let_def split: sum.split)

lemma filter_parser_call_rate_log: "filter is_parser_call (rate_log r) = []"
  by (simp add: rate_log_def Let_def split: sum.split)

lemma filter_counter_rate_log: "filter is_counter (rate_log r) = []"
  by (simp add: rate_log_def Let_def split: sum.split)

lemmas filter_rate_log =
  filter_pool_rate_log filter_response_rate_log filter_storage_write_rate_log
  filter_parser_call_rate_log filter_counter_rate_log

text \<open>Resolution in the concrete environment, on the requests used below.\<close>

lemmas demo_simps =
  request_def demo_env_def demo_ParseKey_def demo_Put_def demo_tree_def demo_trie_def
  demo_lines_def demo_groups_def demo_params_def Values_Get_def world0_def now_def
  Atoi_def is_digit_def digit_val_def maxUint64_def

lemma demo_resolve:
  "fst (ingestParamsFromRequest demo_env
          (request [(''name'', ''app.name''), (''format'', ''lines'')] [] ''stack;trace 5'')
          world0) =
   Inr (demo_params (wrapConvertFunction demo_env demo_lines) 100)"
  "fst (ingestParamsFromRequest demo_env
          (request [(''name'', ''app.name'')] [(''Content-Type'', ''binary/octet-stream+trie'')] ''x'')
          world0) =
   Inr (demo_params (wrapConvertFunctionBuf demo_env demo_trie) 100)"
  "fst (ingestParamsFromRequest demo_env
          (request [(''name'', ''app.name''), (''format'', ''lines'')]
             [(''Content-Type'', ''binary/octet-stream+tree'')] ''x'')
          world0) =
   Inr (demo_params (wrapConvertFunctionReader demo_tree) 100)"
  "fst (ingestParamsFromRequest demo_env
          (request [(''name'', ''app.name''), (''sampleRate'', ''0'')] [] ''x'') world0) =
   Inr (demo_params (wrapConvertFunction demo_env demo_groups) 0)"
  "fst (ingestParamsFromRequest demo_env
          (request [(''name'', ''app.name''), (''sampleRate'', ''-1'')] [] ''x'') world0) =
   Inr (demo_params (wrapConvertFunction demo_env demo_groups) 4294967295)"
  "fst (ingestParamsFromRequest demo_env
          (request [(''name'', ''app.name''), (''sampleRate'', ''notanumber'')] [] ''x'') world0) =
   Inr (demo_params (wrapConvertFunction demo_env demo_groups) 100)"
  by (simp_all add: resolve_unfold Let_def demo_simps)

text \<open>The wrappers on decoders that deliver a known sequence of pairs.\<close>

lemma deliver_treeInsert: "deliver (treeInsert e) ps t = insert_all e ps t"
  by (induction ps arbitrary: t) (auto simp: treeInsert_def)

lemma wrap_delivers:
  "delivers g r ps err \<Longrightarrow>
   wrapConvertFunction e g r buf = (Some (insert_all e ps (tree_New e)), err)"
  by (simp add: delivers_def wrapConvertFunction_def deliver_treeInsert)

lemma wrapBuf_delivers:
  "delivers_buf f r buf ps err \<Longrightarrow>
   wrapConvertFunctionBuf e f r buf = (Some (insert_all e ps (tree_New e)), err)"
  by (simp add: delivers_buf_def wrapConvertFunctionBuf_def deliver_treeInsert)

lemma demo_delivers:
  "delivers_buf demo_trie r buf [(''a;b'', 3)] (Some (ErrorString ''unexpected end of trie''))"
  "delivers demo_groups r [(r, 2)] None"
  "delivers demo_truncated r [(''a'', 1), (''b'', 2)] (Some (ErrorString ''unexpected end of input''))"
  by (simp_all add: delivers_buf_def delivers_def demo_trie_def demo_groups_def demo_truncated_def)

text \<open>Parsing and the success of all steps in the concrete environment.\<close>

lemma demo_fields:
  "B (bufferPool_Get demo_env) = ''''"
  "ingester_Put demo_env = demo_Put"
  "Body (request q h b) = b"
  by (simp_all add: demo_env_def request_def)

lemma demo_parse:
  "parserFunc (demo_params (wrapConvertFunctionBuf demo_env demo_trie) 100) ''x'' '''' =
     (Some [(''a;b'', 3)], Some (ErrorString ''unexpected end of trie''))"
  "parserFunc (demo_params (wrapConvertFunction demo_env demo_lines) 100) ''stack;trace 5'' '''' =
     (Some [(''stack;trace 5'', 1)], None)"
  "parserFunc (demo_params (wrapConvertFunction demo_env demo_groups) 0) ''x'' '''' =
     (Some [(''x'', 2)], None)"
  by (simp_all add: demo_simps wrapConvertFunctionBuf_def wrapConvertFunction_def treeInsert_def)

lemma demo_all_steps:
  "all_steps_succeed demo_env
     (request [(''name'', ''app.name''), (''format'', ''lines'')] [] ''stack;trace 5'') world0"
  "\<not> all_steps_succeed demo_env
     (request [(''name'', ''app.name''), (''sampleRate'', ''0'')] [] ''x'') world0"
  by (simp_all add: all_steps_succeed_def demo_resolve demo_fields demo_parse)
     (simp_all add: put_input_def demo_Put_def demo_params_def)

section \<open>The scratch buffer\<close>

text \<open>
  C1. For every handled request in which a scratch buffer is acquired, the buffer is
  returned to the pool exactly once, on every exit path. Whatever the request and the
  collaborators do, the trace of the handler keeps the buffer discipline and ends with no
  buffer held: the buffer is returned while it is held, the parser runs on it while it is
  held, and every response and every storage submission comes after the return. The pool
  events of the trace are one acquisition followed by one return of the same buffer when
  the parameters resolve (whether decoding and storage then succeed or fail), and none
  when they do not. The buffer has no part in the write request: the only storage
  submission, made when decoding succeeds, is of \<open>put_input ip t\<close>, whose fields are those
  of the resolved parameters \<open>ip\<close> and the tree \<open>t\<close> that the parser returned.
\<close>

theorem buffer_released_exactly_once:
  "pool_run (trace e r w) [] = Some [] \<and>
   filter is_pool (trace e r w) =
     (if isl (fst (ingestParamsFromRequest e r w)) then []
      else [PoolGet (bufferPool_Get e), PoolPut (bufferPool_Get e)]) \<and>
   filter is_storage_write (trace e r w) =
     (case fst (ingestParamsFromRequest e r w) of
        Inl err \<Rightarrow> []
      | Inr ip \<Rightarrow>
          (case parserFunc ip (Body r) (B (bufferPool_Get e)) of
             (t, Some err) \<Rightarrow> []
           | (t, None) \<Rightarrow> [IngesterPut (put_input ip t)]))"
proof (cases "fst (ingestParamsFromRequest e r w)")
  case (Inl err)
  then show ?thesis
    by (simp add: trace_resolve_fails [OF Inl] pool_run_rate_log filter_rate_log)
next
  case (Inr ip)
  obtain t perr where p: "parserFunc ip (Body r) (B (bufferPool_Get e)) = (t, perr)"
    by (cases "parserFunc ip (Body r) (B (bufferPool_Get e))")
  show ?thesis
  proof (cases perr)
    case (Some err)
    with p Inr show ?thesis
      by (simp add: trace_decode_fails [OF Inr] pool_run_rate_log filter_rate_log)
  next
    case None
    note p' = p [unfolded None]
    show ?thesis
    proof (cases "ingester_Put e (put_input ip t)")
      case None
      with Inr p' show ?thesis
        by (simp add: trace_success [OF Inr p'] pool_run_rate_log filter_rate_log)
    next
      case (Some err)
      with Inr p' show ?thesis
        by (simp add: trace_put_fails [OF Inr p'] pool_run_rate_log filter_rate_log)
    qed
  qed
qed

theorem buffer_released_exactly_once_witness:
  "pool_run
     (trace demo_env
        (request [(''name'', ''app.name'')] [(''Content-Type'', ''binary/octet-stream+trie'')] ''x'')
        world0) [] = Some [] \<and>
   filter is_pool
     (trace demo_env
        (request [(''name'', ''app.name'')] [(''Content-Type'', ''binary/octet-stream+trie'')] ''x'')
        world0) =
     [PoolGet \<lparr>addr = 1, B = ''''\<rparr>, PoolPut \<lparr>addr = 1, B = ''''\<rparr>] \<and>
   filter is_storage_write
     (trace demo_env
        (request [(''name'', ''app.name'')] [(''Content-Type'', ''binary/octet-stream+trie'')] ''x'')
        world0) = [] \<and>
   pool_run
     (trace demo_env
        (request [(''name'', ''app.name''), (''format'', ''lines'')] [] ''stack;trace 5'') world0)
     [] = Some [] \<and>
   filter is_pool
     (trace demo_env
        (request [(''name'', ''app.name''), (''format'', ''lines'')] [] ''stack;trace 5'') world0) =
     [PoolGet \<lparr>addr = 1, B = ''''\<rparr>, PoolPut \<lparr>addr = 1, B = ''''\<rparr>] \<and>
   filter is_storage_write
     (trace demo_env
        (request [(''name'', ''app.name''), (''format'', ''lines'')] [] ''stack;trace 5'') world0) =
     [IngesterPut
        \<lparr>StartTime = 1000, EndTime = 1001, Key = ''app.name'',
         Val = Some [(''stack;trace 5'', 1)], SpyName = ''unknown'', SampleRate = 100,
         Units = ''samples'', AggregationType = ''sum''\<rparr>]"
  using
    buffer_released_exactly_once [of demo_env
      "request [(''name'', ''app.name'')] [(''Content-Type'', ''binary/octet-stream+trie'')] ''x''"
      world0]
    buffer_released_exactly_once [of demo_env
      "request [(''name'', ''app.name''), (''format'', ''lines'')] [] ''stack;trace 5''" world0]
  by (simp add: demo_resolve demo_fields demo_parse)
     (simp add: demo_env_def put_input_def demo_params_def)

section \<open>Parameter resolution\<close>

text \<open>
  C2. For every combination of the \<open>format\<close> query parameter and the Content-Type header,
  the decoder is selected by first match over the ordered list: \<open>format=tree\<close> or
  Content-Type \<open>binary/octet-stream+tree\<close> selects the binary-tree decoder; \<open>format=trie\<close>
  or Content-Type \<open>binary/octet-stream+trie\<close> selects the trie decoder; \<open>format=lines\<close>
  selects the line decoder; anything else, absent and unrecognised selectors included,
  selects the group decoder.
\<close>

theorem decoder_selection_first_match:
  assumes "fst (ingestParamsFromRequest e r w) = Inr ip"
  shows "parserFunc ip =
           parser_of e
             (first_match
                [(Values_Get (URL_Query r) ''format'' = ''tree'' \<or>
                  Values_Get (Header r) ''Content-Type'' = ''binary/octet-stream+tree'',
                  TreeDecoder),
                 (Values_Get (URL_Query r) ''format'' = ''trie'' \<or>
                  Values_Get (Header r) ''Content-Type'' = ''binary/octet-stream+trie'',
                  TrieDecoder),
                 (Values_Get (URL_Query r) ''format'' = ''lines'', LinesDecoder)]
                GroupsDecoder)"
  using resolve_parserFunc [OF assms] by simp

theorem decoder_selection_first_match_witness:
  "fst (ingestParamsFromRequest demo_env
          (request [(''name'', ''app.name'')] [(''Content-Type'', ''binary/octet-stream+trie'')] ''x'')
          world0) =
     Inr (demo_params (wrapConvertFunctionBuf demo_env demo_trie) 100) \<and>
   parserFunc (demo_params (wrapConvertFunctionBuf demo_env demo_trie) 100) =
     parser_of demo_env TrieDecoder"
  using decoder_selection_first_match [OF demo_resolve(2)]
  by (simp add: demo_resolve) (simp add: request_def Values_Get_def)

text \<open>
  C3. When the key parser refuses the \<open>name\<close> query parameter (the empty string when the
  parameter is absent), resolution fails with the parser's error wrapped under the prefix
  \<open>name: \<close>; the handler answers with the invalid-parameter response, a client error, and
  acquires no buffer, calls no parser and submits nothing to storage. No other parameter
  makes resolution fail: it fails exactly when the key parser refuses the name.
\<close>

theorem invalid_name_aborts_request:
  assumes "ParseKey e (Values_Get (URL_Query r) ''name'') = Inl err"
  shows "fst (ingestParamsFromRequest e r w) = Inl (WrapError ''name: '' err) \<and>
         Error (WrapError ''name: '' err) = ''name: '' @ Error err \<and>
         Unwrap (WrapError ''name: '' err) = Some err \<and>
         filter is_response (trace e r w) =
           [WriteInvalidParameterError (WrapError ''name: '' err)] \<and>
         map response_class (filter is_response (trace e r w)) = [Some ClientError] \<and>
         filter is_pool (trace e r w) = [] \<and>
         filter is_parser_call (trace e r w) = [] \<and>
         filter is_storage_write (trace e r w) = [] \<and>
         (isl (fst (ingestParamsFromRequest e r' w')) \<longleftrightarrow>
            isl (ParseKey e (Values_Get (URL_Query r') ''name'')))"
proof -
  have f: "fst (ingestParamsFromRequest e r w) = Inl (WrapError ''name: '' err)"
    by (rule resolve_Inl [OF assms])
  have only: "isl (fst (ingestParamsFromRequest e r' w')) \<longleftrightarrow>
      isl (ParseKey e (Values_Get (URL_Query r') ''name''))"
  proof (cases "ParseKey e (Values_Get (URL_Query r') ''name'')")
    case (Inl a)
    then show ?thesis by (simp add: resolve_Inl [OF Inl])
  next
    case (Inr k)
    from resolve_Inr [OF Inr, of w'] Inr show ?thesis by auto
  qed
  from f only show ?thesis
    by (simp add: trace_resolve_fails [OF f] filter_rate_log)
qed

theorem invalid_name_aborts_request_witness:
  "ParseKey demo_env (Values_Get (URL_Query (request [(''format'', ''lines'')] [] ''x'')) ''name'') =
     Inl (ErrorString ''application name is required'') \<and>
   fst (ingestParamsFromRequest demo_env (request [(''format'', ''lines'')] [] ''x'') world0) =
     Inl (WrapError ''name: '' (ErrorString ''application name is required'')) \<and>
   trace demo_env (request [(''format'', ''lines'')] [] ''x'') world0 =
     [WriteInvalidParameterError
        (WrapError ''name: '' (ErrorString ''application name is required''))]"
proof -
  have h: "ParseKey demo_env
      (Values_Get (URL_Query (request [(''format'', ''lines'')] [] ''x'')) ''name'') =
     Inl (ErrorString ''application name is required'')"
    by (simp add: demo_simps)
  have l: "rate_log (request [(''format'', ''lines'')] [] ''x'') = []"
    by (simp add: rate_log_def demo_simps)
  from invalid_name_aborts_request [OF h, of world0] have
    "fst (ingestParamsFromRequest demo_env (request [(''format'', ''lines'')] [] ''x'') world0) =
       Inl (WrapError ''name: '' (ErrorString ''application name is required''))"
    by simp
  with h l show ?thesis by (simp add: trace_resolve_fails)
qed

text \<open>
  C4. A \<open>sampleRate\<close> that \<open>strconv.Atoi\<close> refuses does not reject the request: whenever
  the key parser accepts the name, resolution succeeds and the resolved sample rate is the
  system default. A value that is not empty is logged with its parse error; the empty
  string, which is what \<open>Get\<close> returns for an absent parameter, takes the default without
  a log entry.
\<close>

theorem malformed_sample_rate_defaults:
  assumes "Atoi (Values_Get (URL_Query r) ''sampleRate'') = Inl err"
    and "ParseKey e (Values_Get (URL_Query r) ''name'') = Inr k"
  shows "(\<exists>ip. fst (ingestParamsFromRequest e r w) = Inr ip \<and>
               sampleRate ip = DefaultSampleRate e) \<and>
         events (snd (ingestParamsFromRequest e r w)) =
           events w @
           (if Values_Get (URL_Query r) ''sampleRate'' = '''' then []
            else [LogError err (''invalid sample rate: '' @ Values_Get (URL_Query r) ''sampleRate'')])"
proof -
  from resolve_Inr [OF assms(2), of w] obtain ip
    where ip: "fst (ingestParamsFromRequest e r w) = Inr ip" by blast
  have "sampleRate ip = DefaultSampleRate e"
    using resolve_sampleRate [OF ip] assms(1) by simp
  moreover have "rate_log r =
      (if Values_Get (URL_Query r) ''sampleRate'' = '''' then []
       else [LogError err (''invalid sample rate: '' @ Values_Get (URL_Query r) ''sampleRate'')] :: ('a, 'b) event list)"
    using assms(1) by (simp add: rate_log_def)
  ultimately show ?thesis using ip by (simp add: resolve_events)
qed

theorem malformed_sample_rate_defaults_witness:
  "Atoi (Values_Get
           (URL_Query (request [(''name'', ''app.name''), (''sampleRate'', ''notanumber'')] [] ''x''))
           ''sampleRate'') = Inl (ErrSyntax ''notanumber'') \<and>
   fst (ingestParamsFromRequest demo_env
          (request [(''name'', ''app.name''), (''sampleRate'', ''notanumber'')] [] ''x'') world0) =
     Inr (demo_params (wrapConvertFunction demo_env demo_groups) 100) \<and>
   DefaultSampleRate demo_env = 100 \<and>
   events (snd (ingestParamsFromRequest demo_env
          (request [(''name'', ''app.name''), (''sampleRate'', ''notanumber'')] [] ''x'') world0)) =
     [LogError (ErrSyntax ''notanumber'') ''invalid sample rate: notanumber'']"
proof -
  have a: "Atoi (Values_Get
           (URL_Query (request [(''name'', ''app.name''), (''sampleRate'', ''notanumber'')] [] ''x''))
           ''sampleRate'') = Inl (ErrSyntax ''notanumber'')"
    by (simp add: demo_simps)
  have k: "ParseKey demo_env (Values_Get
           (URL_Query (request [(''name'', ''app.name''), (''sampleRate'', ''notanumber'')] [] ''x''))
           ''name'') = Inr ''app.name''"
    by (simp add: demo_simps)
  have v: "Values_Get
           (URL_Query (request [(''name'', ''app.name''), (''sampleRate'', ''notanumber'')] [] ''x''))
           ''sampleRate'' = ''notanumber''"
    by (simp add: demo_simps)
  from malformed_sample_rate_defaults [OF a k, of world0] a show ?thesis
    by (simp add: demo_resolve v) (simp add: demo_env_def world0_def)
qed

text \<open>
  C5, as stated: the \<open>format\<close> query parameter takes precedence over the Content-Type
  header, so that when the two name different decoders the one named by \<open>format\<close> is
  selected. The selection does not do that: for \<open>format=lines\<close> with Content-Type
  \<open>binary/octet-stream+tree\<close> the binary-tree decoder is selected, not the line decoder.
\<close>

theorem format_precedence_counterexample:
  "format_names (Values_Get (URL_Query (request [(''name'', ''app.name''), (''format'', ''lines'')]
             [(''Content-Type'', ''binary/octet-stream+tree'')] ''x'')) ''format'') = Some LinesDecoder \<and>
   contentType_names (Values_Get (Header (request [(''name'', ''app.name''), (''format'', ''lines'')]
             [(''Content-Type'', ''binary/octet-stream+tree'')] ''x'')) ''Content-Type'') = Some TreeDecoder \<and>
   fst (ingestParamsFromRequest demo_env
          (request [(''name'', ''app.name''), (''format'', ''lines'')]
             [(''Content-Type'', ''binary/octet-stream+tree'')] ''x'')
          world0) =
     Inr (demo_params (parser_of demo_env TreeDecoder) 100) \<and>
   parserFunc (demo_params (parser_of demo_env TreeDecoder) 100) \<noteq>
     parser_of demo_env LinesDecoder \<and>
   parser_of demo_env TreeDecoder ''x'' '''' = (None, Some (ErrorString ''bad tree header'')) \<and>
   parser_of demo_env LinesDecoder ''x'' '''' = (Some [(''x'', 1)], None)"
proof -
  have t: "parser_of demo_env TreeDecoder ''x'' '''' = (None, Some (ErrorString ''bad tree header''))"
    by (simp add: demo_simps wrapConvertFunctionReader_def)
  have l: "parser_of demo_env LinesDecoder ''x'' '''' = (Some [(''x'', 1)], None)"
    by (simp add: demo_simps wrapConvertFunction_def treeInsert_def)
  have "parser_of demo_env TreeDecoder \<noteq> parser_of demo_env LinesDecoder"
  proof
    assume "parser_of demo_env TreeDecoder = parser_of demo_env LinesDecoder"
    then have "parser_of demo_env TreeDecoder ''x'' '''' = parser_of demo_env LinesDecoder ''x'' ''''"
      by simp
    with t l show False by simp
  qed
  then have "parserFunc (demo_params (parser_of demo_env TreeDecoder) 100) \<noteq>
     parser_of demo_env LinesDecoder"
    by (simp add: demo_params_def)
  moreover have "format_names (Values_Get (URL_Query (request [(''name'', ''app.name''), (''format'', ''lines'')]
             [(''Content-Type'', ''binary/octet-stream+tree'')] ''x'')) ''format'') = Some LinesDecoder"
    by (simp add: request_def Values_Get_def format_names_def)
  moreover have "contentType_names (Values_Get (Header (request [(''name'', ''app.name''), (''format'', ''lines'')]
             [(''Content-Type'', ''binary/octet-stream+tree'')] ''x'')) ''Content-Type'') = Some TreeDecoder"
    by (simp add: request_def Values_Get_def contentType_names_def)
  moreover have "parser_of demo_env TreeDecoder = wrapConvertFunctionReader demo_tree"
    by (simp add: demo_env_def)
  ultimately show ?thesis using t l by (simp add: demo_resolve)
qed

text \<open>
  C5, amended: the two selectors are consulted together, case by case in the order tree,
  trie, lines. When only one of \<open>format\<close> and Content-Type names a decoder, that decoder
  is selected; when both name one, the decoder that comes first in that order is selected,
  whichever of the two names it; when neither does, the group decoder is the default.
\<close>

theorem decoder_selection_by_rank:
  assumes "fst (ingestParamsFromRequest e r w) = Inr ip"
  shows "parserFunc ip =
           parser_of e
             (case (format_names (Values_Get (URL_Query r) ''format''),
                    contentType_names (Values_Get (Header r) ''Content-Type'')) of
                (None, None) \<Rightarrow> GroupsDecoder
              | (Some a, None) \<Rightarrow> a
              | (None, Some b) \<Rightarrow> b
              | (Some a, Some b) \<Rightarrow> (if rank a \<le> rank b then a else b))"
  using resolve_parserFunc [OF assms]
  by (simp add: format_names_def contentType_names_def)

theorem decoder_selection_by_rank_witness:
  "fst (ingestParamsFromRequest demo_env
          (request [(''name'', ''app.name''), (''format'', ''lines'')]
             [(''Content-Type'', ''binary/octet-stream+tree'')] ''x'')
          world0) =
     Inr (demo_params (wrapConvertFunctionReader demo_tree) 100) \<and>
   parserFunc (demo_params (wrapConvertFunctionReader demo_tree) 100) =
     parser_of demo_env TreeDecoder"
  using decoder_selection_by_rank [OF demo_resolve(3)]
  by (simp add: demo_resolve)
     (simp add: request_def Values_Get_def format_names_def contentType_names_def)

text \<open>
  C6, as stated: the resolved sample rate is a positive integer, a supplied value that is
  not positive being replaced by the system default. It is not: \<open>sampleRate=0\<close> resolves
  to the sample rate 0, which is neither positive nor the default.
\<close>

theorem sample_rate_positive_counterexample:
  "fst (ingestParamsFromRequest demo_env
          (request [(''name'', ''app.name''), (''sampleRate'', ''0'')] [] ''x'') world0) =
     Inr (demo_params (wrapConvertFunction demo_env demo_groups) 0) \<and>
   \<not> 0 < uint (sampleRate (demo_params (wrapConvertFunction demo_env demo_groups) 0)) \<and>
   sampleRate (demo_params (wrapConvertFunction demo_env demo_groups) 0) \<noteq>
     DefaultSampleRate demo_env"
  by (simp add: demo_resolve) (simp add: demo_params_def demo_env_def)

text \<open>
  C6, amended: for every request that resolves, the sample rate is the system default when
  the parameter is absent, empty or refused by \<open>strconv.Atoi\<close>; a supplied integer from 0
  up to \<open>2 ^ 32 - 1\<close> is carried through as it is, zero included, and is not replaced by
  the default.
\<close>

theorem sample_rate_carried_through:
  assumes "fst (ingestParamsFromRequest e r w) = Inr ip"
  shows "(Values_Get (URL_Query r) ''sampleRate'' = '''' \<or>
          isl (Atoi (Values_Get (URL_Query r) ''sampleRate'')) \<longrightarrow>
            sampleRate ip = DefaultSampleRate e) \<and>
         (Values_Get (URL_Query r) ''sampleRate'' \<noteq> '''' \<and>
          Atoi (Values_Get (URL_Query r) ''sampleRate'') = Inr n \<and> 0 \<le> n \<and> n < 2 ^ 32 \<longrightarrow>
            uint (sampleRate ip) = n)"
  using resolve_sampleRate [OF assms]
  by (auto simp add: uint_word_of_int take_bit_eq_mod split: sum.splits)

theorem sample_rate_carried_through_witness:
  "fst (ingestParamsFromRequest demo_env
          (request [(''name'', ''app.name''), (''sampleRate'', ''0'')] [] ''x'') world0) =
     Inr (demo_params (wrapConvertFunction demo_env demo_groups) 0) \<and>
   Atoi (Values_Get
           (URL_Query (request [(''name'', ''app.name''), (''sampleRate'', ''0'')] [] ''x''))
           ''sampleRate'') = Inr 0 \<and>
   uint (sampleRate (demo_params (wrapConvertFunction demo_env demo_groups) 0)) = 0 \<and>
   fst (ingestParamsFromRequest demo_env
          (request [(''name'', ''app.name''), (''sampleRate'', ''notanumber'')] [] ''x'') world0) =
     Inr (demo_params (wrapConvertFunction demo_env demo_groups) 100) \<and>
   isl (Atoi (Values_Get
           (URL_Query (request [(''name'', ''app.name''), (''sampleRate'', ''notanumber'')] [] ''x''))
           ''sampleRate'')) \<and>
   sampleRate (demo_params (wrapConvertFunction demo_env demo_groups) 100) =
     DefaultSampleRate demo_env"
proof -
  have a0: "Values_Get
      (URL_Query (request [(''name'', ''app.name''), (''sampleRate'', ''0'')] [] ''x''))
      ''sampleRate'' = ''0''"
    by (simp add: request_def Values_Get_def)
  have a1: "Atoi ''0'' = Inr 0"
    by (simp add: Atoi_def is_digit_def digit_val_def maxUint64_def)
  have b0: "Values_Get
      (URL_Query (request [(''name'', ''app.name''), (''sampleRate'', ''notanumber'')] [] ''x''))
      ''sampleRate'' = ''notanumber''"
    by (simp add: request_def Values_Get_def)
  have b1: "isl (Atoi ''notanumber'')"
    by (simp add: Atoi_def is_digit_def digit_val_def maxUint64_def)
  from sample_rate_carried_through [OF demo_resolve(4), of 0]
    sample_rate_carried_through [OF demo_resolve(6)]
  show ?thesis
    by (simp add: demo_resolve a0 a1 b0 b1)
qed

section \<open>The parser wrappers\<close>

text \<open>
  C7. Each wrapper normalises its decoder to \<open>parse(stream, scratchBuffer)\<close>. The wrapper
  of a callback decoder with buffer runs the decoder on the caller's buffer and returns a
  fresh tree with every delivered pair inserted, in order, together with the decoder's
  error; the wrapper of a callback decoder without buffer does the same and its result
  does not depend on the buffer; the wrapper of a direct decoder returns exactly the
  decoder's tree and error on the stream, whatever the buffer.
\<close>

theorem wrappers_normalize_decoders:
  assumes "delivers_buf f r buf ps err" and "delivers g r qs err'"
  shows "wrapConvertFunctionBuf e f r buf = (Some (insert_all e ps (tree_New e)), err) \<and>
         wrapConvertFunction e g r buf = (Some (insert_all e qs (tree_New e)), err') \<and>
         wrapConvertFunction e g' r buf = wrapConvertFunction e g' r buf' \<and>
         wrapConvertFunctionReader h r buf = h r"
  using wrapBuf_delivers [OF assms(1), of e] wrap_delivers [OF assms(2), of e buf]
  by (simp add: wrapConvertFunction_def wrapConvertFunctionReader_def)

theorem wrappers_normalize_decoders_witness:
  "delivers_buf demo_trie ''x'' ''scratch'' [(''a;b'', 3)]
     (Some (ErrorString ''unexpected end of trie'')) \<and>
   delivers demo_groups ''x'' [(''x'', 2)] None \<and>
   wrapConvertFunctionBuf demo_env demo_trie ''x'' ''scratch'' =
     (Some [(''a;b'', 3)], Some (ErrorString ''unexpected end of trie'')) \<and>
   wrapConvertFunction demo_env demo_groups ''x'' ''scratch'' = (Some [(''x'', 2)], None) \<and>
   wrapConvertFunctionReader demo_tree ''x'' ''scratch'' =
     (None, Some (ErrorString ''bad tree header''))"
  using wrappers_normalize_decoders [OF demo_delivers(1) demo_delivers(2), where e = demo_env and h = demo_tree]
  by (simp add: demo_delivers) (simp add: demo_env_def demo_tree_def)

text \<open>
  C10. The two callback wrappers always return a tree that is not nil. When the decoder
  fails after delivering some pairs, the wrapper returns the fresh tree holding exactly
  those pairs together with the decoder's error.
\<close>

theorem callback_wrappers_return_partial_tree:
  assumes "delivers_buf f r buf ps (Some err)" and "delivers g r qs (Some err')"
  shows "wrapConvertFunctionBuf e f r buf = (Some (insert_all e ps (tree_New e)), Some err) \<and>
         wrapConvertFunction e g r buf = (Some (insert_all e qs (tree_New e)), Some err') \<and>
         fst (wrapConvertFunctionBuf e f' r' buf') \<noteq> None \<and>
         fst (wrapConvertFunction e g' r' buf') \<noteq> None"
proof -
  have "fst (wrapConvertFunctionBuf e f' r' buf') \<noteq> None"
    by (simp add: wrapConvertFunctionBuf_def split_beta Let_def)
  moreover have "fst (wrapConvertFunction e g' r' buf') \<noteq> None"
    by (simp add: wrapConvertFunction_def split_beta Let_def)
  ultimately show ?thesis
    using wrapBuf_delivers [OF assms(1), of e] wrap_delivers [OF assms(2), of e buf] by simp
qed

theorem callback_wrappers_return_partial_tree_witness:
  "delivers_buf demo_trie ''x'' '''' [(''a;b'', 3)] (Some (ErrorString ''unexpected end of trie'')) \<and>
   delivers demo_truncated ''x'' [(''a'', 1), (''b'', 2)]
     (Some (ErrorString ''unexpected end of input'')) \<and>
   wrapConvertFunctionBuf demo_env demo_trie ''x'' '''' =
     (Some [(''a;b'', 3)], Some (ErrorString ''unexpected end of trie'')) \<and>
   wrapConvertFunction demo_env demo_truncated ''x'' '''' =
     (Some [(''a'', 1), (''b'', 2)], Some (ErrorString ''unexpected end of input''))"
  using callback_wrappers_return_partial_tree [OF demo_delivers(1) demo_delivers(3), where e = demo_env]
  by (simp add: demo_delivers) (simp add: demo_env_def)

section \<open>Responses and counters\<close>

text \<open>
  C8. When the parameters resolve and the selected parser returns an error on the body,
  the only response is \<open>writeError\<close> with status 422 (unprocessable entity, a client
  error), the parser's error and the message \<open>error happened while parsing request body\<close>,
  and nothing is submitted to storage.
\<close>

theorem decode_failure_unprocessable:
  assumes "fst (ingestParamsFromRequest e r w) = Inr ip"
    and "snd (parserFunc ip (Body r) (B (bufferPool_Get e))) = Some err"
  shows "filter is_response (trace e r w) =
           [WriteError StatusUnprocessableEntity err
              ''error happened while parsing request body''] \<and>
         map response_class (filter is_response (trace e r w)) = [Some ClientError] \<and>
         StatusUnprocessableEntity = 422 \<and>
         filter is_storage_write (trace e r w) = []"
proof -
  from assms(2) obtain t where p: "parserFunc ip (Body r) (B (bufferPool_Get e)) = (t, Some err)"
    by (cases "parserFunc ip (Body r) (B (bufferPool_Get e))") simp
  show ?thesis
    by (simp add: trace_decode_fails [OF assms(1) p] filter_rate_log StatusUnprocessableEntity_def)
qed

theorem decode_failure_unprocessable_witness:
  "fst (ingestParamsFromRequest demo_env
          (request [(''name'', ''app.name'')] [(''Content-Type'', ''binary/octet-stream+trie'')] ''x'')
          world0) =
     Inr (demo_params (wrapConvertFunctionBuf demo_env demo_trie) 100) \<and>
   snd (parserFunc (demo_params (wrapConvertFunctionBuf demo_env demo_trie) 100) ''x'' '''') =
     Some (ErrorString ''unexpected end of trie'') \<and>
   filter is_response
     (trace demo_env
        (request [(''name'', ''app.name'')] [(''Content-Type'', ''binary/octet-stream+trie'')] ''x'')
        world0) =
     [WriteError 422 (ErrorString ''unexpected end of trie'')
        ''error happened while parsing request body''] \<and>
   filter is_storage_write
     (trace demo_env
        (request [(''name'', ''app.name'')] [(''Content-Type'', ''binary/octet-stream+trie'')] ''x'')
        world0) = []"
proof -
  have p: "snd (parserFunc (demo_params (wrapConvertFunctionBuf demo_env demo_trie) 100)
      (Body (request [(''name'', ''app.name'')] [(''Content-Type'', ''binary/octet-stream+trie'')] ''x''))
      (B (bufferPool_Get demo_env))) = Some (ErrorString ''unexpected end of trie'')"
    using demo_parse(1) by (simp add: demo_fields)
  from decode_failure_unprocessable [OF demo_resolve(2) p] show ?thesis
    by (simp add: demo_resolve demo_parse)
qed

text \<open>
  C9. The three counters (\<open>ingest\<close>, \<open>ingest:\<close> followed by the agent name, and the
  application counter fed with the hash of the application name of the storage key) are
  incremented, once each, when every step of handling succeeds; when resolution, decoding
  or the storage write fails, no counter is incremented.
\<close>

theorem counters_iff_all_steps_succeed:
  "(all_steps_succeed e r w \<longrightarrow>
      (\<exists>ip. fst (ingestParamsFromRequest e r w) = Inr ip \<and>
            filter is_counter (trace e r w) =
              [StatsInc ''ingest'', StatsInc (''ingest:'' @ spyName ip),
               AppStatsAdd (hashString e (AppName e (storageKey ip)))])) \<and>
   (\<not> all_steps_succeed e r w \<longrightarrow> filter is_counter (trace e r w) = [])"
proof (cases "fst (ingestParamsFromRequest e r w)")
  case (Inl err)
  then show ?thesis
    by (simp add: all_steps_succeed_def trace_resolve_fails [OF Inl] filter_rate_log)
next
  case (Inr ip)
  obtain t perr where p: "parserFunc ip (Body r) (B (bufferPool_Get e)) = (t, perr)"
    by (cases "parserFunc ip (Body r) (B (bufferPool_Get e))")
  show ?thesis
  proof (cases perr)
    case (Some err)
    with p Inr show ?thesis
      by (simp add: all_steps_succeed_def trace_decode_fails [OF Inr] filter_rate_log)
  next
    case None
    note p' = p [unfolded None]
    show ?thesis
    proof (cases "ingester_Put e (put_input ip t)")
      case None
      with Inr p' show ?thesis
        by (simp add: all_steps_succeed_def trace_success [OF Inr p'] filter_rate_log)
    next
      case (Some err)
      with Inr p' show ?thesis
        by (simp add: all_steps_succeed_def trace_put_fails [OF Inr p'] filter_rate_log)
    qed
  qed
qed

theorem counters_iff_all_steps_succeed_witness:
  "all_steps_succeed demo_env
     (request [(''name'', ''app.name''), (''format'', ''lines'')] [] ''stack;trace 5'') world0 \<and>
   filter is_counter
     (trace demo_env
        (request [(''name'', ''app.name''), (''format'', ''lines'')] [] ''stack;trace 5'') world0) =
     [StatsInc ''ingest'', StatsInc ''ingest:unknown'', AppStatsAdd 8] \<and>
   \<not> all_steps_succeed demo_env
     (request [(''name'', ''app.name''), (''sampleRate'', ''0'')] [] ''x'') world0 \<and>
   filter is_counter
     (trace demo_env (request [(''name'', ''app.name''), (''sampleRate'', ''0'')] [] ''x'') world0) = []"
  using
    counters_iff_all_steps_succeed [of demo_env
      "request [(''name'', ''app.name''), (''format'', ''lines'')] [] ''stack;trace 5''" world0]
    counters_iff_all_steps_succeed [of demo_env "request [(''name'', ''app.name''), (''sampleRate'', ''0'')] [] ''x''" world0]
  by (simp add: demo_all_steps demo_resolve) (simp add: demo_params_def demo_env_def)

end
